theory Spec2Isabelle
  imports Main "HOL-Library.Sublist"
begin

section \<open>Data model\<close>

text \<open>
  The repository is a React front end. Two asynchronous handlers carry its logic:
  \<open>onSubmit\<close> of the component \<open>YouTubeChannelForm\<close> (the version with the
  pre-check query and the optional \<open>onSuccess\<close> property) and \<open>checkSession\<close>
  of the page \<open>Login\<close>. Each handler is a straight line of calls to collaborators
  (the Supabase client, the toast hook, the router, the form library, the console).
  A handler is embedded as a function from the answers of the backend to the list of
  calls it makes, in program order.
\<close>

text \<open>The values of the form, \<open>z.infer<typeof formSchema>\<close>.\<close>

record form_values =
  name :: string
  channelId :: string

text \<open>
  The object handed to \<open>insert\<close> on the table \<open>content_sources\<close>. Its keys
  \<open>type\<close> and \<open>name\<close> are the fields \<open>row_type\<close> and \<open>row_name\<close>.
\<close>

record content_source =
  row_type :: string
  row_name :: string
  source_id :: string
  source_url :: string

text \<open>
  An error object of the backend, with the two fields the handlers read
  (\<open>error.code\<close>, \<open>error.message\<close>).
\<close>

record api_error =
  code :: string
  message :: string

text \<open>
  The argument of \<open>toast\<close>. The key \<open>variant\<close> is absent (\<open>None\<close>) in the success
  notification and \<open>"destructive"\<close> in all others.
\<close>

record toast_args =
  title :: string
  description :: string
  variant :: "string option"

text \<open>The argument of \<open>navigate\<close>: a history delta (\<open>navigate(-1)\<close>) or a route.\<close>

datatype nav_target = Delta int | Route string

text \<open>
  Every call a handler makes to a collaborator. \<open>SelectMaybeSingle\<close> carries the
  table, the selected column and the \<open>eq\<close> filters; \<open>Insert\<close> the table and the
  row; \<open>ConsoleError\<close> the label of \<open>console.error\<close> (the error object logged
  with it is left out); \<open>SignInWithPassword\<close> the email and the password;
  \<open>SignUp\<close> the email, the password and the role of \<open>options.data\<close>.
\<close>

datatype effect =
    SetIsLoading bool
  | SelectMaybeSingle string string "(string \<times> string) list"
  | Insert string content_source
  | ConsoleError string
  | Toast toast_args
  | Navigate nav_target
  | FetchYouTubeVideos string
  | FormReset
  | OnSuccess
  | GetSession
  | SignInWithPassword string string
  | SignUp string string string

text \<open>How the \<open>try\<close> block of a handler ends: by falling through or \<open>return\<close>, or by \<open>throw\<close>.\<close>

datatype completion = Returned | Thrown api_error

section \<open>Channel registration: \<open>YouTubeChannelForm.onSubmit\<close>\<close>

text \<open>\<open>String.prototype.startsWith\<close> with one argument.\<close>

definition startsWith :: "string \<Rightarrow> string \<Rightarrow> bool" where
  "startsWith s p = (take (length p) s = p)"

text \<open>
  The template literal of the field \<open>source_url\<close>:
  \<^verbatim>\<open>`https://www.youtube.com/${id.startsWith('@') ? id : `channel/${id}`}`\<close>.
\<close>

definition youtube_url :: "string \<Rightarrow> string" where
  "youtube_url cid =
     ''https://www.youtube.com/'' @ (if startsWith cid ''@'' then cid else ''channel/'' @ cid)"

definition new_source :: "form_values \<Rightarrow> content_source" where
  "new_source vs =
     \<lparr> row_type = ''youtube'', row_name = name vs, source_id = channelId vs,
       source_url = youtube_url (channelId vs) \<rparr>"

text \<open>
  The answers of the collaborators that \<open>onSubmit\<close> awaits: the two fields it
  destructures from the pre-check query (\<open>data\<close> as \<open>existingChannel\<close>, \<open>error\<close> as
  \<open>checkError\<close>; the row carries the selected column \<open>id\<close>), the \<open>error\<close> of the
  insert, and the value with which the promise of \<open>fetchYouTubeVideos\<close> is rejected,
  if it is. The Supabase client reports a failure in the field \<open>error\<close> of its
  answer. The synchronous calls (\<open>setIsLoading\<close>, \<open>toast\<close>, \<open>navigate("/login")\<close>,
  \<open>form.reset\<close>, \<open>onSuccess\<close>, \<open>console.error\<close>) are taken to return normally.
\<close>

record backend =
  existingChannel :: "string option"
  checkError :: "api_error option"
  insertError :: "api_error option"
  fetchError :: "api_error option"

definition toast_already_exists :: toast_args where
  "toast_already_exists =
     \<lparr> title = ''Channel already exists'',
       description = ''This YouTube channel has already been added to your sources.'',
       variant = Some ''destructive'' \<rparr>"

definition toast_added :: toast_args where
  "toast_added =
     \<lparr> title = ''Channel added successfully'',
       description = ''The YouTube channel has been added to your sources.'',
       variant = None \<rparr>"

definition toast_error_adding :: toast_args where
  "toast_error_adding =
     \<lparr> title = ''Error adding channel'',
       description = ''There was a problem adding the YouTube channel.'',
       variant = Some ''destructive'' \<rparr>"

text \<open>
  The \<open>try\<close> block of \<open>onSubmit\<close>. The second argument says whether the property
  \<open>onSuccess\<close> was supplied. The calls made so far are collected in program order;
  the completion tells the \<open>catch\<close> clause whether it has to run.
\<close>

definition onSubmit_try :: "backend \<Rightarrow> bool \<Rightarrow> form_values \<Rightarrow> effect list \<times> completion" where
  "onSubmit_try be onSuccess vs =
     (let checked =
            [SetIsLoading True,
             SelectMaybeSingle ''content_sources'' ''id''
               [(''type'', ''youtube''), (''source_id'', channelId vs)]]
      in case checkError be of
           Some e \<Rightarrow> (checked @ [ConsoleError ''Error checking existing channel:''], Thrown e)
         | None \<Rightarrow>
             (case existingChannel be of
                Some row \<Rightarrow> (checked @ [Toast toast_already_exists], Returned)
              | None \<Rightarrow>
                  (let inserted =
                         checked @ [Insert ''content_sources'' (new_source vs)]
                   in case insertError be of
                        Some error \<Rightarrow>
                          (let logged = inserted @ [ConsoleError ''Error details:'']
                           in if code error = ''42501''
                              then (logged @ [Navigate (Route ''/login'')], Returned)
                              else if code error = ''23505''
                              then (logged @ [Toast toast_already_exists], Returned)
                              else (logged, Thrown error))
                      | None \<Rightarrow>
                          (let fetched =
                                 inserted @ [Toast toast_added, FetchYouTubeVideos (channelId vs)]
                           in case fetchError be of
                                Some e \<Rightarrow> (fetched, Thrown e)
                              | None \<Rightarrow>
                                  (fetched @ [FormReset] @ (if onSuccess then [OnSuccess] else []),
                                   Returned)))))"

text \<open>
  The whole handler: the \<open>catch\<close> clause logs and notifies the generic failure, the
  \<open>finally\<close> clause clears the loading flag on every path.
\<close>

definition onSubmit :: "backend \<Rightarrow> bool \<Rightarrow> form_values \<Rightarrow> effect list" where
  "onSubmit be onSuccess vs =
     (case onSubmit_try be onSuccess vs of
        (effs, Returned) \<Rightarrow> effs @ [SetIsLoading False]
      | (effs, Thrown error) \<Rightarrow>
          effs @ [ConsoleError ''Error adding channel:'', Toast toast_error_adding,
                  SetIsLoading False])"

text \<open>
  The state of the component that the handler changes: the flag of \<open>useState(false)\<close>
  and the values held by the form, which \<open>form.reset()\<close> sets back to
  \<open>defaultValues\<close>. The submit button is rendered with \<open>disabled={isLoading}\<close>.
\<close>

record ui_state =
  isLoading :: bool
  form :: form_values

definition defaultValues :: form_values where
  "defaultValues = \<lparr> name = [], channelId = [] \<rparr>"

definition initial_ui :: ui_state where
  "initial_ui = \<lparr> isLoading = False, form = defaultValues \<rparr>"

fun apply_effect :: "effect \<Rightarrow> ui_state \<Rightarrow> ui_state" where
  "apply_effect (SetIsLoading b) s = s\<lparr> isLoading := b \<rparr>"
| "apply_effect FormReset s = s\<lparr> form := defaultValues \<rparr>"
| "apply_effect _ s = s"

definition replay :: "effect list \<Rightarrow> ui_state \<Rightarrow> ui_state" where
  "replay effs s = fold apply_effect effs s"

definition submit_disabled :: "ui_state \<Rightarrow> bool" where
  "submit_disabled s = isLoading s"

section \<open>Session bootstrap: \<open>Login.checkSession\<close>\<close>

text \<open>
  The answers that \<open>checkSession\<close> awaits: the session and the error of
  \<open>getSession\<close>, the errors of the first sign-in, of the sign-up and of the second
  sign-in, and whether the call \<open>navigate(-1)\<close> throws, which is what the
  \<open>try\<close>/\<open>catch\<close> around it tests.
\<close>

record auth_backend =
  session :: "string option"
  sessionError :: "api_error option"
  signInError :: "api_error option"
  signUpError :: "api_error option"
  retryError :: "api_error option"
  backThrows :: bool

definition console_email :: string where
  "console_email = ''console-user@lovable.dev''"

definition console_password :: string where
  "console_password = ''console-user''"

text \<open>\<^verbatim>\<open>try { navigate(-1) } catch { navigate("/admin") }\<close>\<close>

definition navigate_back :: "bool \<Rightarrow> effect list" where
  "navigate_back throws =
     (if throws then [Navigate (Delta (- 1)), Navigate (Route ''/admin'')]
      else [Navigate (Delta (- 1))])"

definition checkSession :: "auth_backend \<Rightarrow> effect list" where
  "checkSession be =
     (case sessionError be of
        Some error \<Rightarrow>
          [GetSession, ConsoleError ''Error checking session:'',
           Toast \<lparr> title = ''Error checking session'',
                   description = ''Please try again later'',
                   variant = Some ''destructive'' \<rparr>]
      | None \<Rightarrow>
          (case session be of
             Some s \<Rightarrow> GetSession # navigate_back (backThrows be)
           | None \<Rightarrow>
               (let signedIn = [GetSession, SignInWithPassword console_email console_password]
                in case signInError be of
                     None \<Rightarrow> signedIn @ navigate_back (backThrows be)
                   | Some e1 \<Rightarrow>
                       (let signedUp =
                              signedIn @ [SignUp console_email console_password ''admin'']
                        in case signUpError be of
                             Some e2 \<Rightarrow>
                               signedUp @
                               [ConsoleError ''Error signing up:'',
                                Toast \<lparr> title = ''Error signing up'',
                                        description = message e2,
                                        variant = Some ''destructive'' \<rparr>]
                           | None \<Rightarrow>
                               (let retried =
                                      signedUp @
                                      [SignInWithPassword console_email console_password]
                                in case retryError be of
                                     Some e3 \<Rightarrow>
                                       retried @
                                       [ConsoleError ''Error signing in:'',
                                        Toast \<lparr> title = ''Error signing in'',
                                                description = message e3,
                                                variant = Some ''destructive'' \<rparr>]
                                   | None \<Rightarrow> retried @ navigate_back (backThrows be))))))"

section \<open>Vocabulary of the properties\<close>

text \<open>The text \<open>channel/\<close> occurs in a URL.\<close>

definition contains_channel_segment :: "string \<Rightarrow> bool" where
  "contains_channel_segment url = sublist ''channel/'' url"

text \<open>
  The run in which the pre-check finds nothing and every awaited call succeeds.
\<close>

definition full_success :: "backend \<Rightarrow> bool" where
  "full_success be =
     (checkError be = None \<and> existingChannel be = None \<and> insertError be = None \<and>
      fetchError be = None)"

text \<open>Concrete inputs on which the theorems below are instantiated.\<close>

definition sample_values :: form_values where
  "sample_values = \<lparr> name = ''CMFI'', channelId = ''UC123'' \<rparr>"

definition backend_ok :: backend where
  "backend_ok =
     \<lparr> existingChannel = None, checkError = None, insertError = None, fetchError = None \<rparr>"

definition no_session :: auth_backend where
  "no_session =
     \<lparr> session = None, sessionError = None, signInError = None, signUpError = None,
       retryError = None, backThrows = False \<rparr>"

definition sample_error :: "string \<Rightarrow> api_error" where
  "sample_error c = \<lparr> code = c, message = ''rejected'' \<rparr>"

section \<open>Properties of the channel registration\<close>

lemmas onSubmit_defs = onSubmit_def onSubmit_try_def Let_def

lemma replay_Cons: "replay (e # effs) s = replay effs (apply_effect e s)"
  by (simp add: replay_def)

lemma replay_snoc: "replay (effs @ [e]) s = apply_effect e (replay effs s)"
  by (simp add: replay_def)

lemma replay_keeps_flag:
  "(\<forall>b. SetIsLoading b \<notin> set effs) \<Longrightarrow> isLoading (replay effs s) = isLoading s"
  unfolding replay_def
proof (induction effs arbitrary: s)
  case Nil
  then show ?case by simp
next
  case (Cons e effs)
  then show ?case by (cases e) auto
qed

lemma onSubmit_shape:
  "\<exists>mid. onSubmit be cb vs = SetIsLoading True # mid @ [SetIsLoading False]
         \<and> (\<forall>b. SetIsLoading b \<notin> set mid)"
  by (simp add: onSubmit_defs split: option.splits)

text \<open>
  C1. When the pre-check query, issued with \<open>type = "youtube"\<close> and
  \<open>source_id = channelId\<close>, returns a row and no error, the handler notifies
  "Channel already exists" and makes no call to \<open>insert\<close>.
\<close>

theorem precheck_hit_already_exists:
  assumes "checkError be = None" and "existingChannel be = Some row"
  shows "onSubmit be cb vs =
           [SetIsLoading True,
            SelectMaybeSingle ''content_sources'' ''id''
              [(''type'', ''youtube''), (''source_id'', channelId vs)],
            Toast \<lparr> title = ''Channel already exists'',
                    description =
                      ''This YouTube channel has already been added to your sources.'',
                    variant = Some ''destructive'' \<rparr>,
            SetIsLoading False]
         \<and> (\<forall>t r. Insert t r \<notin> set (onSubmit be cb vs))"
  using assms by (simp add: onSubmit_defs toast_already_exists_def)

theorem precheck_hit_already_exists_witness:
  "checkError (backend_ok\<lparr> existingChannel := Some ''7'' \<rparr>) = None
   \<and> existingChannel (backend_ok\<lparr> existingChannel := Some ''7'' \<rparr>) = Some ''7''
   \<and> onSubmit (backend_ok\<lparr> existingChannel := Some ''7'' \<rparr>) True sample_values =
        [SetIsLoading True,
         SelectMaybeSingle ''content_sources'' ''id''
           [(''type'', ''youtube''), (''source_id'', ''UC123'')],
         Toast \<lparr> title = ''Channel already exists'',
                    description =
                      ''This YouTube channel has already been added to your sources.'',
                    variant = Some ''destructive'' \<rparr>,
         SetIsLoading False]"
  using precheck_hit_already_exists
          [of "backend_ok\<lparr> existingChannel := Some ''7'' \<rparr>" "''7''" True sample_values]
  by (simp add: backend_ok_def sample_values_def)

text \<open>
  C2, as amended. The derived \<open>source_url\<close> is the base followed by the channelId when
  the channelId starts with \<open>@\<close>, and the base followed by \<open>channel/\<close> and the
  channelId otherwise. So the URL begins with the base and \<open>channel/\<close> if and only if
  the channelId does not start with \<open>@\<close>, and it contains the text \<open>channel/\<close> if and
  only if the channelId does not start with \<open>@\<close> or contains that text itself.
\<close>

theorem source_url_channel_segment:
  "source_url (new_source vs) =
     (if startsWith (channelId vs) ''@''
      then ''https://www.youtube.com/'' @ channelId vs
      else ''https://www.youtube.com/channel/'' @ channelId vs)
   \<and> (prefix ''https://www.youtube.com/channel/'' (source_url (new_source vs))
      \<longleftrightarrow> \<not> startsWith (channelId vs) ''@'')
   \<and> (contains_channel_segment (source_url (new_source vs))
      \<longleftrightarrow> \<not> startsWith (channelId vs) ''@'' \<or> contains_channel_segment (channelId vs))
   \<and> suffix (channelId vs) (source_url (new_source vs))"
proof -
  have starts: "startsWith c ''@'' \<longleftrightarrow> (\<exists>r. c = CHR ''@'' # r)" for c
    by (cases c) (auto simp: startsWith_def)
  have base: "sublist ''channel/'' (''https://www.youtube.com/'' @ c)
                \<longleftrightarrow> sublist ''channel/'' c" for c
    by (simp add: sublist_Cons_right)
  show ?thesis
  proof (cases "startsWith (channelId vs) ''@''")
    case True
    then obtain r where "channelId vs = CHR ''@'' # r"
      using starts by blast
    with True show ?thesis
      using base [of "channelId vs"]
      by (simp add: new_source_def youtube_url_def contains_channel_segment_def
                    suffix_def)
  next
    case False
    then show ?thesis
      by (simp add: new_source_def youtube_url_def contains_channel_segment_def
                    suffix_def sublist_Cons_right)
  qed
qed

theorem source_url_channel_segment_witness:
  "startsWith ''@cmfi'' ''@''
   \<and> \<not> contains_channel_segment ''@cmfi''
   \<and> source_url (new_source \<lparr> name = ''CMFI'', channelId = ''@cmfi'' \<rparr>)
       = ''https://www.youtube.com/@cmfi''
   \<and> \<not> contains_channel_segment
         (source_url (new_source \<lparr> name = ''CMFI'', channelId = ''@cmfi'' \<rparr>))
   \<and> \<not> prefix ''https://www.youtube.com/channel/''
         (source_url (new_source \<lparr> name = ''CMFI'', channelId = ''@cmfi'' \<rparr>))
   \<and> \<not> startsWith ''UC123'' ''@''
   \<and> source_url (new_source \<lparr> name = ''CMFI'', channelId = ''UC123'' \<rparr>)
       = ''https://www.youtube.com/channel/UC123''
   \<and> contains_channel_segment
         (source_url (new_source \<lparr> name = ''CMFI'', channelId = ''UC123'' \<rparr>))"
  using source_url_channel_segment [of "\<lparr> name = ''CMFI'', channelId = ''@cmfi'' \<rparr>"]
        source_url_channel_segment [of "\<lparr> name = ''CMFI'', channelId = ''UC123'' \<rparr>"]
  by (simp add: startsWith_def contains_channel_segment_def sublist_Cons_right)

text \<open>
  C2, as stated, fails: the channelId \<open>@a/channel/b\<close> passes the validation of the
  form and starts with \<open>@\<close>, and the derived URL
  \<open>https://www.youtube.com/@a/channel/b\<close> has the path segment \<open>channel/\<close>.
\<close>

theorem source_url_channel_segment_counterexample:
  "startsWith ''@a/channel/b'' ''@''
   \<and> source_url (new_source \<lparr> name = ''CMFI'', channelId = ''@a/channel/b'' \<rparr>)
       = ''https://www.youtube.com/@a/channel/b''
   \<and> contains_channel_segment
       (source_url (new_source \<lparr> name = ''CMFI'', channelId = ''@a/channel/b'' \<rparr>))"
  by (simp add: startsWith_def new_source_def youtube_url_def contains_channel_segment_def
                sublist_Cons_right)

text \<open>
  C3, as amended. After a successful insert the handler notifies success, calls
  \<open>fetchYouTubeVideos\<close> with the submitted channelId and awaits it. When the call
  completes, the form is reset and the callback \<open>onSuccess\<close> is invoked if it was
  supplied. When the call is rejected, the handler logs, notifies the generic failure,
  and neither resets the form nor invokes the callback.
\<close>

theorem insert_success_awaits_fetch:
  assumes "checkError be = None" and "existingChannel be = None" and "insertError be = None"
  shows "onSubmit be cb vs =
           [SetIsLoading True,
            SelectMaybeSingle ''content_sources'' ''id''
              [(''type'', ''youtube''), (''source_id'', channelId vs)],
            Insert ''content_sources'' (new_source vs),
            Toast toast_added,
            FetchYouTubeVideos (channelId vs)]
           @ (case fetchError be of
                None \<Rightarrow> FormReset # (if cb then [OnSuccess] else [])
              | Some e \<Rightarrow> [ConsoleError ''Error adding channel:'', Toast toast_error_adding])
           @ [SetIsLoading False]"
  using assms by (simp add: onSubmit_defs split: option.splits)

theorem insert_success_awaits_fetch_witness:
  "checkError backend_ok = None \<and> existingChannel backend_ok = None
   \<and> insertError backend_ok = None
   \<and> onSubmit backend_ok True sample_values =
        [SetIsLoading True,
         SelectMaybeSingle ''content_sources'' ''id''
           [(''type'', ''youtube''), (''source_id'', ''UC123'')],
         Insert ''content_sources'' (new_source sample_values),
         Toast toast_added,
         FetchYouTubeVideos ''UC123'',
         FormReset,
         OnSuccess,
         SetIsLoading False]"
  using insert_success_awaits_fetch [of backend_ok True sample_values]
  by (simp add: backend_ok_def sample_values_def)

text \<open>
  C3, as stated, fails: with a successful insert and a rejected fetch, the handler has
  notified success, then notifies the generic failure, and the form is not reset and
  the supplied callback is not invoked.
\<close>

theorem insert_success_awaits_fetch_counterexample:
  "checkError (backend_ok\<lparr> fetchError := Some (sample_error ''500'') \<rparr>) = None
   \<and> existingChannel (backend_ok\<lparr> fetchError := Some (sample_error ''500'') \<rparr>) = None
   \<and> insertError (backend_ok\<lparr> fetchError := Some (sample_error ''500'') \<rparr>) = None
   \<and> FormReset \<notin>
        set (onSubmit (backend_ok\<lparr> fetchError := Some (sample_error ''500'') \<rparr>) True
               sample_values)
   \<and> OnSuccess \<notin>
        set (onSubmit (backend_ok\<lparr> fetchError := Some (sample_error ''500'') \<rparr>) True
               sample_values)
   \<and> Toast toast_error_adding \<in>
        set (onSubmit (backend_ok\<lparr> fetchError := Some (sample_error ''500'') \<rparr>) True
               sample_values)"
  by (simp add: onSubmit_defs backend_ok_def)

text \<open>
  C4. When the insert fails with the code \<open>23505\<close> (unique violation), the handler
  notifies "Channel already exists" and does not notify the generic failure.
\<close>

theorem unique_violation_already_exists:
  assumes "checkError be = None" and "existingChannel be = None"
    and "insertError be = Some e" and "code e = ''23505''"
  shows "onSubmit be cb vs =
           [SetIsLoading True,
            SelectMaybeSingle ''content_sources'' ''id''
              [(''type'', ''youtube''), (''source_id'', channelId vs)],
            Insert ''content_sources'' (new_source vs),
            ConsoleError ''Error details:'',
            Toast \<lparr> title = ''Channel already exists'',
                    description =
                      ''This YouTube channel has already been added to your sources.'',
                    variant = Some ''destructive'' \<rparr>,
            SetIsLoading False]
         \<and> Toast \<lparr> title = ''Error adding channel'',
                 description = ''There was a problem adding the YouTube channel.'',
                 variant = Some ''destructive'' \<rparr> \<notin> set (onSubmit be cb vs)"
  using assms
  by (simp add: onSubmit_defs toast_already_exists_def toast_error_adding_def)

theorem unique_violation_already_exists_witness:
  "checkError (backend_ok\<lparr> insertError := Some (sample_error ''23505'') \<rparr>) = None
   \<and> existingChannel (backend_ok\<lparr> insertError := Some (sample_error ''23505'') \<rparr>) = None
   \<and> code (sample_error ''23505'') = ''23505''
   \<and> Toast \<lparr> title = ''Channel already exists'',
                    description =
                      ''This YouTube channel has already been added to your sources.'',
                    variant = Some ''destructive'' \<rparr> \<in>
        set (onSubmit (backend_ok\<lparr> insertError := Some (sample_error ''23505'') \<rparr>) False
               sample_values)
   \<and> Toast \<lparr> title = ''Error adding channel'',
                 description = ''There was a problem adding the YouTube channel.'',
                 variant = Some ''destructive'' \<rparr> \<notin>
        set (onSubmit (backend_ok\<lparr> insertError := Some (sample_error ''23505'') \<rparr>) False
               sample_values)"
  using unique_violation_already_exists
          [of "backend_ok\<lparr> insertError := Some (sample_error ''23505'') \<rparr>"
              "sample_error ''23505''" False sample_values]
  by (simp add: backend_ok_def sample_error_def toast_already_exists_def
                toast_error_adding_def)

text \<open>
  C5. When the insert fails with the code \<open>42501\<close> (permission denied), the handler
  navigates to \<open>/login\<close> and returns: it notifies nothing, and it neither fetches
  videos, nor resets the form, nor invokes the callback. Only the \<open>finally\<close> clause
  still runs.
\<close>

theorem permission_denied_redirects_to_login:
  assumes "checkError be = None" and "existingChannel be = None"
    and "insertError be = Some e" and "code e = ''42501''"
  shows "onSubmit be cb vs =
           [SetIsLoading True,
            SelectMaybeSingle ''content_sources'' ''id''
              [(''type'', ''youtube''), (''source_id'', channelId vs)],
            Insert ''content_sources'' (new_source vs),
            ConsoleError ''Error details:'',
            Navigate (Route ''/login''),
            SetIsLoading False]
         \<and> Toast toast_error_adding \<notin> set (onSubmit be cb vs)
         \<and> (\<forall>c. FetchYouTubeVideos c \<notin> set (onSubmit be cb vs))
         \<and> FormReset \<notin> set (onSubmit be cb vs)
         \<and> OnSuccess \<notin> set (onSubmit be cb vs)"
  using assms by (simp add: onSubmit_defs)

theorem permission_denied_redirects_to_login_witness:
  "checkError (backend_ok\<lparr> insertError := Some (sample_error ''42501'') \<rparr>) = None
   \<and> existingChannel (backend_ok\<lparr> insertError := Some (sample_error ''42501'') \<rparr>) = None
   \<and> code (sample_error ''42501'') = ''42501''
   \<and> onSubmit (backend_ok\<lparr> insertError := Some (sample_error ''42501'') \<rparr>) True
        sample_values =
        [SetIsLoading True,
         SelectMaybeSingle ''content_sources'' ''id''
           [(''type'', ''youtube''), (''source_id'', ''UC123'')],
         Insert ''content_sources'' (new_source sample_values),
         ConsoleError ''Error details:'',
         Navigate (Route ''/login''),
         SetIsLoading False]"
  using permission_denied_redirects_to_login
          [of "backend_ok\<lparr> insertError := Some (sample_error ''42501'') \<rparr>"
              "sample_error ''42501''" True sample_values]
  by (simp add: backend_ok_def sample_error_def sample_values_def)

text \<open>
  C8. The first call of the handler sets the loading flag, the last call clears it,
  and no call in between touches it. So at every point of a run after its first call
  and before its last one the flag is set and the submit button is disabled, and
  after the run, however it ends, the flag is cleared, as it is initially.
\<close>

theorem loading_flag_set_while_in_flight:
  "(\<exists>mid. onSubmit be cb vs = SetIsLoading True # mid @ [SetIsLoading False]
          \<and> (\<forall>b. SetIsLoading b \<notin> set mid))
   \<and> (\<forall>n. 0 < n \<and> n < length (onSubmit be cb vs) \<longrightarrow>
          submit_disabled (replay (take n (onSubmit be cb vs)) s))
   \<and> \<not> isLoading (replay (onSubmit be cb vs) s)
   \<and> \<not> isLoading initial_ui"
proof -
  obtain mid where run: "onSubmit be cb vs = SetIsLoading True # mid @ [SetIsLoading False]"
    and quiet: "\<forall>b. SetIsLoading b \<notin> set mid"
    using onSubmit_shape by blast
  have during: "submit_disabled (replay (take n (onSubmit be cb vs)) s)"
    if "0 < n" and "n < length (onSubmit be cb vs)" for n
  proof -
    from that obtain k where n: "n = Suc k" and k: "k \<le> length mid"
      using run by (cases n) auto
    have "take n (onSubmit be cb vs) = SetIsLoading True # take k mid"
      using run n k by simp
    moreover have "\<forall>b. SetIsLoading b \<notin> set (take k mid)"
      using quiet by (meson in_set_takeD)
    ultimately show ?thesis
      by (simp add: submit_disabled_def replay_Cons replay_keeps_flag)
  qed
  have after: "\<not> isLoading (replay (onSubmit be cb vs) s)"
    unfolding run by (simp only: append_Cons [symmetric] replay_snoc) simp
  from run quiet during after show ?thesis
    by (simp add: initial_ui_def)
qed

theorem loading_flag_set_while_in_flight_witness:
  "0 < (3::nat) \<and> 3 < length (onSubmit backend_ok True sample_values)
   \<and> submit_disabled (replay (take 3 (onSubmit backend_ok True sample_values)) initial_ui)
   \<and> \<not> isLoading (replay (onSubmit backend_ok True sample_values) initial_ui)"
proof -
  have len: "3 < length (onSubmit backend_ok True sample_values)"
    by (simp add: onSubmit_defs backend_ok_def)
  from loading_flag_set_while_in_flight [of backend_ok True sample_values initial_ui] len
  show ?thesis by simp
qed

text \<open>
  C9. When the insert fails with the code \<open>42501\<close>, the handler calls \<open>toast\<close> not
  once. Its whole run is: set the loading flag, the pre-check query, the insert,
  \<open>console.error("Error details:")\<close>, \<open>navigate("/login")\<close>, clear the loading flag.
  The first four calls and the last one are made for every failed insert, whatever its
  code: the branch for the code \<open>42501\<close> itself makes one call, the navigation to
  \<open>/login\<close>.
\<close>

theorem permission_denied_no_notification:
  assumes "checkError be = None" and "existingChannel be = None"
    and "insertError be = Some e" and "code e = ''42501''"
  shows "(\<forall>t. Toast t \<notin> set (onSubmit be cb vs))
         \<and> onSubmit be cb vs =
             [SetIsLoading True,
              SelectMaybeSingle ''content_sources'' ''id''
                [(''type'', ''youtube''), (''source_id'', channelId vs)],
              Insert ''content_sources'' (new_source vs),
              ConsoleError ''Error details:'']
             @ [Navigate (Route ''/login'')]
             @ [SetIsLoading False]
         \<and> (\<forall>e'. take 4 (onSubmit (be\<lparr> insertError := Some e' \<rparr>) cb vs) =
                    [SetIsLoading True,
                     SelectMaybeSingle ''content_sources'' ''id''
                       [(''type'', ''youtube''), (''source_id'', channelId vs)],
                     Insert ''content_sources'' (new_source vs),
                     ConsoleError ''Error details:'']
                  \<and> last (onSubmit (be\<lparr> insertError := Some e' \<rparr>) cb vs) = SetIsLoading False)"
  using assms by (simp add: onSubmit_defs)

theorem permission_denied_no_notification_witness:
  "checkError (backend_ok\<lparr> insertError := Some (sample_error ''42501'') \<rparr>) = None
   \<and> existingChannel (backend_ok\<lparr> insertError := Some (sample_error ''42501'') \<rparr>) = None
   \<and> code (sample_error ''42501'') = ''42501''
   \<and> Toast toast_already_exists \<notin>
        set (onSubmit (backend_ok\<lparr> insertError := Some (sample_error ''42501'') \<rparr>) False
               sample_values)
   \<and> Toast toast_error_adding \<notin>
        set (onSubmit (backend_ok\<lparr> insertError := Some (sample_error ''42501'') \<rparr>) False
               sample_values)
   \<and> drop 4 (onSubmit (backend_ok\<lparr> insertError := Some (sample_error ''42501'') \<rparr>) False
               sample_values) = [Navigate (Route ''/login''), SetIsLoading False]"
  using permission_denied_no_notification
          [of "backend_ok\<lparr> insertError := Some (sample_error ''42501'') \<rparr>"
              "sample_error ''42501''" False sample_values]
  by (simp add: backend_ok_def sample_error_def)

text \<open>
  C10. The handler calls \<open>form.reset()\<close> exactly on the run in which the pre-check
  finds nothing and the insert and the fetch succeed. On every other run (pre-check
  error, existing row, permission denied, unique violation, any other insert error,
  fetch error) the values of the form are after the run what they were before it; on
  the successful run they are the default values.
\<close>

theorem form_reset_only_on_full_success:
  "(FormReset \<in> set (onSubmit be cb vs) \<longleftrightarrow> full_success be)
   \<and> (\<not> full_success be \<longrightarrow> form (replay (onSubmit be cb vs) s) = form s)
   \<and> (full_success be \<longrightarrow> form (replay (onSubmit be cb vs) s) = defaultValues)"
proof (intro conjI impI)
  show "FormReset \<in> set (onSubmit be cb vs) \<longleftrightarrow> full_success be"
    by (auto simp add: onSubmit_defs full_success_def split: option.splits)
next
  assume "\<not> full_success be"
  then show "form (replay (onSubmit be cb vs) s) = form s"
    by (auto simp add: onSubmit_defs full_success_def replay_def split: option.splits)
next
  assume "full_success be"
  then show "form (replay (onSubmit be cb vs) s) = defaultValues"
    by (auto simp add: onSubmit_defs full_success_def replay_def split: option.splits)
qed

theorem form_reset_only_on_full_success_witness:
  "\<not> full_success (backend_ok\<lparr> insertError := Some (sample_error ''23505'') \<rparr>)
   \<and> FormReset \<notin>
        set (onSubmit (backend_ok\<lparr> insertError := Some (sample_error ''23505'') \<rparr>) True
               sample_values)
   \<and> form (replay
             (onSubmit (backend_ok\<lparr> insertError := Some (sample_error ''23505'') \<rparr>) True
                sample_values)
             \<lparr> isLoading = False, form = sample_values \<rparr>) = sample_values
   \<and> full_success backend_ok
   \<and> form (replay (onSubmit backend_ok True sample_values)
             \<lparr> isLoading = False, form = sample_values \<rparr>) = defaultValues"
  using form_reset_only_on_full_success
          [of "backend_ok\<lparr> insertError := Some (sample_error ''23505'') \<rparr>" True sample_values
              "\<lparr> isLoading = False, form = sample_values \<rparr>"]
        form_reset_only_on_full_success
          [of backend_ok True sample_values "\<lparr> isLoading = False, form = sample_values \<rparr>"]
  by (simp add: full_success_def backend_ok_def)

section \<open>Properties of the session bootstrap\<close>

text \<open>
  C6. With no session, a failing sign-in and a failing sign-up, \<open>checkSession\<close> logs
  and notifies "Error signing up" with the message of the sign-up error, and stops:
  it makes no call to \<open>navigate\<close>, neither back nor to \<open>/admin\<close>.
\<close>

theorem signup_failure_no_navigation:
  assumes "sessionError be = None" and "session be = None"
    and "signInError be = Some e1" and "signUpError be = Some e2"
  shows "checkSession be =
           [GetSession,
            SignInWithPassword console_email console_password,
            SignUp console_email console_password ''admin'',
            ConsoleError ''Error signing up:'',
            Toast \<lparr> title = ''Error signing up'', description = message e2,
                    variant = Some ''destructive'' \<rparr>]
         \<and> (\<forall>t. Navigate t \<notin> set (checkSession be))"
  using assms by (simp add: checkSession_def Let_def)

theorem signup_failure_no_navigation_witness:
  "sessionError (no_session\<lparr> signInError := Some (sample_error ''400''),
                             signUpError := Some (sample_error ''422'') \<rparr>) = None
   \<and> session (no_session\<lparr> signInError := Some (sample_error ''400''),
                          signUpError := Some (sample_error ''422'') \<rparr>) = None
   \<and> Navigate (Delta (- 1)) \<notin>
        set (checkSession (no_session\<lparr> signInError := Some (sample_error ''400''),
                                        signUpError := Some (sample_error ''422'') \<rparr>))
   \<and> Navigate (Route ''/admin'') \<notin>
        set (checkSession (no_session\<lparr> signInError := Some (sample_error ''400''),
                                        signUpError := Some (sample_error ''422'') \<rparr>))
   \<and> last (checkSession (no_session\<lparr> signInError := Some (sample_error ''400''),
                                       signUpError := Some (sample_error ''422'') \<rparr>))
       = Toast \<lparr> title = ''Error signing up'', description = ''rejected'',
                 variant = Some ''destructive'' \<rparr>"
  using signup_failure_no_navigation
          [of "no_session\<lparr> signInError := Some (sample_error ''400''),
                            signUpError := Some (sample_error ''422'') \<rparr>"
              "sample_error ''400''" "sample_error ''422''"]
  by (simp add: no_session_def sample_error_def)

text \<open>
  The path with no session, a failing sign-in, a successful sign-up and a successful
  second sign-in: \<open>checkSession\<close> notifies nothing and calls \<open>navigate(-1)\<close>; it
  calls \<open>navigate("/admin")\<close> exactly when that call throws.
\<close>

lemma checkSession_retry_success_trace:
  assumes "sessionError be = None" and "session be = None"
    and "signInError be = Some e1" and "signUpError be = None" and "retryError be = None"
  shows "checkSession be =
           [GetSession,
            SignInWithPassword console_email console_password,
            SignUp console_email console_password ''admin'',
            SignInWithPassword console_email console_password,
            Navigate (Delta (- 1))]
           @ (if backThrows be then [Navigate (Route ''/admin'')] else [])
         \<and> (\<forall>t. Toast t \<notin> set (checkSession be))"
  using assms by (simp add: checkSession_def navigate_back_def Let_def)

text \<open>
  C7. With no session, a failing sign-in, a successful sign-up and a successful second
  sign-in, the workflow is to navigate back, or to the default route when there is no
  history. The handler reaches \<open>navigate("/admin")\<close> only through the \<open>catch\<close>
  around \<open>navigate(-1)\<close>. On a run in which \<open>navigate(-1)\<close> returns normally, as
  the router's call does when the history is empty, the handler makes the four calls to
  the auth provider and the call \<open>navigate(-1)\<close>, and never navigates to \<open>/admin\<close>.
\<close>

theorem retry_success_no_fallback_without_throw:
  "backThrows (no_session\<lparr> signInError := Some (sample_error ''400'') \<rparr>) = False
   \<and> checkSession (no_session\<lparr> signInError := Some (sample_error ''400'') \<rparr>) =
        [GetSession,
         SignInWithPassword console_email console_password,
         SignUp console_email console_password ''admin'',
         SignInWithPassword console_email console_password,
         Navigate (Delta (- 1))]
   \<and> Navigate (Route ''/admin'') \<notin>
        set (checkSession (no_session\<lparr> signInError := Some (sample_error ''400'') \<rparr>))"
  by (simp add: checkSession_def navigate_back_def Let_def no_session_def)

end
